theory Spec2Isabelle
  imports Complex_Main "HOL-Library.AList"
begin

section \<open>Data model\<close>

text \<open>
  The three tables of the service.  The handlers take their models from \<^verbatim>\<open>./model\<close>; the
  columns below are the ones the handlers read and write.

  Modelled from the spec: the column types of \<^verbatim>\<open>model.js\<close>.  Ids are integers, \<^verbatim>\<open>type\<close> and
  \<^verbatim>\<open>status\<close> are enumerations, \<^verbatim>\<open>paid\<close> is a nullable boolean, \<^verbatim>\<open>paymentDate\<close> a nullable
  time stamp, and the decimals \<^verbatim>\<open>balance\<close> and \<^verbatim>\<open>price\<close> are exact rationals: the rounding of
  JavaScript's binary floating point is not modelled.
\<close>

datatype profile_type = Client | Contractor | Admin

datatype contract_status = New | In_progress | Terminated

record profile =
  profile_id :: int
  firstName :: string
  lastName :: string
  profession :: string
  balance :: rat
  type :: profile_type

record contract =
  contract_id :: int
  terms :: string
  status :: contract_status
  ClientId :: int
  ContractorId :: int

record job =
  job_id :: int
  description :: string
  price :: rat
  paid :: "bool option"
  paymentDate :: "int option"
  ContractId :: int

text \<open>The relational store: each table is the list of its rows, in the store's order.\<close>

record store =
  profiles :: "profile list"
  contracts :: "contract list"
  jobs :: "job list"

text \<open>
  How a request ends when it does not answer with a result.  \<open>NotFound\<close> is
  \<^verbatim>\<open>res.status(404).end()\<close>, \<open>Forbidden\<close> is \<^verbatim>\<open>res.status(403).end()\<close>, \<open>BadRequest\<close> is
  \<^verbatim>\<open>res.status(400).end()\<close> of a validation before the store is read, and
  \<open>InvalidOperation\<close> is the \<^verbatim>\<open>catch\<close> branch of a handler: an \<^verbatim>\<open>Error\<close> thrown inside the
  transaction body, after the transaction has been rolled back.  The model records which
  branch answers; the status line that \<^verbatim>\<open>res.json(error).status(400).end()\<close> leaves on the
  wire is not part of it.
\<close>

datatype failure = NotFound | Forbidden | BadRequest | InvalidOperation

text \<open>The value thrown by \<^verbatim>\<open>throw Error()\<close> (and by a property read on \<^verbatim>\<open>null\<close>).\<close>

datatype exn = Error

section \<open>Route parameters and the store's primitives\<close>

text \<open>
  A route parameter is a string.  \<open>string_of_id\<close> is the decimal text of an integer id, the
  value of the template literal \<^verbatim>\<open>`${req.profile.id}`\<close>.
\<close>

fun string_of_nat :: "nat \<Rightarrow> string" where
  "string_of_nat n =
     (if n < 10 then [''0123456789'' ! n]
      else string_of_nat (n div 10) @ [''0123456789'' ! (n mod 10)])"

declare string_of_nat.simps [simp del]

definition string_of_id :: "int \<Rightarrow> string" where
  "string_of_id i = (if i < 0 then CHR ''-'' # string_of_nat (nat (- i)) else string_of_nat (nat i))"

text \<open>
  \<^verbatim>\<open>Model.findOne({ where: { id: param } })\<close> with a textual parameter: the row whose id reads
  as the parameter.  (The store compares the integer column with the text; the comparison is
  modelled as equality with the id's decimal text.)
\<close>

definition findOne_job_param :: "store \<Rightarrow> string \<Rightarrow> job option" where
  "findOne_job_param s param = find (\<lambda>j. string_of_id (job_id j) = param) (jobs s)"

text \<open>\<^verbatim>\<open>Contract.findOne({ where: { id } })\<close> and \<^verbatim>\<open>Profile.findOne({ where: { id } })\<close>.\<close>

definition findOne_contract :: "store \<Rightarrow> int \<Rightarrow> contract option" where
  "findOne_contract s i = find (\<lambda>c. contract_id c = i) (contracts s)"

definition findOne_profile :: "store \<Rightarrow> int \<Rightarrow> profile option" where
  "findOne_profile s i = find (\<lambda>p. profile_id p = i) (profiles s)"

text \<open>
  \<^verbatim>\<open>instance.save({ transaction })\<close>: an \<^verbatim>\<open>UPDATE\<close> of the changed columns of the row with the
  instance's id.  The handlers change \<^verbatim>\<open>balance\<close> of a profile, and \<^verbatim>\<open>paid\<close> and
  \<^verbatim>\<open>paymentDate\<close> of a job.
\<close>

definition save_profile :: "profile \<Rightarrow> store \<Rightarrow> store" where
  "save_profile p s =
     s\<lparr>profiles := map (\<lambda>r. if profile_id r = profile_id p then r\<lparr>balance := balance p\<rparr> else r)
                        (profiles s)\<rparr>"

definition save_job :: "job \<Rightarrow> store \<Rightarrow> store" where
  "save_job j s =
     s\<lparr>jobs := map (\<lambda>r. if job_id r = job_id j then r\<lparr>paid := paid j, paymentDate := paymentDate j\<rparr>
                          else r)
                    (jobs s)\<rparr>"

text \<open>
  \<^verbatim>\<open>sequelize.transaction(async (transaction) => { ... })\<close>: the body's writes are committed
  when it returns and rolled back when it throws, and the error is thrown again.
\<close>

definition transaction :: "(store \<Rightarrow> exn + ('a \<times> store)) \<Rightarrow> store \<Rightarrow> (exn + 'a) \<times> store" where
  "transaction body s = (case body s of Inl e \<Rightarrow> (Inl e, s) | Inr (a, s') \<Rightarrow> (Inr a, s'))"

text \<open>What a later \<^verbatim>\<open>Profile.findOne\<close> reads as the balance of a profile.\<close>

definition balance_of :: "store \<Rightarrow> int \<Rightarrow> rat option" where
  "balance_of s i = map_option balance (findOne_profile s i)"

section \<open>\<^verbatim>\<open>POST /jobs/:job_id/pay\<close>\<close>

text \<open>
  The body of the transaction (lines 110 to 154).  \<open>now\<close> is the value of \<^verbatim>\<open>new Date()\<close>.
  The three \<^verbatim>\<open>save\<close> calls of \<^verbatim>\<open>Promise.all\<close> are issued in the order client, contractor,
  job.  The requests are taken one at a time; locks and row versions, which only matter
  between concurrent requests or when one profile is both parties of a contract, are not
  modelled, and the theorems that depend on the two parties being different say so.
\<close>

definition pay_transaction :: "profile \<Rightarrow> string \<Rightarrow> int \<Rightarrow> store \<Rightarrow> exn + (job \<times> store)" where
  "pay_transaction req_profile param_job_id now s =
     (case findOne_job_param s param_job_id of
        None \<Rightarrow> Inl Error
      | Some jobToPay \<Rightarrow>
          if paid jobToPay = Some True \<or> price jobToPay < 0 then Inl Error
          else
            (case findOne_contract s (ContractId jobToPay) of
               None \<Rightarrow> Inl Error
             | Some associatedContract \<Rightarrow>
                 if ClientId associatedContract \<noteq> profile_id req_profile then Inl Error
                 else
                   (case findOne_profile s (ContractorId associatedContract) of
                      None \<Rightarrow> Inl Error
                    | Some contractor \<Rightarrow>
                        (case findOne_profile s (profile_id req_profile) of
                           None \<Rightarrow> Inl Error
                         | Some client \<Rightarrow>
                             if balance client < price jobToPay then Inl Error
                             else
                               (let client' = client\<lparr>balance := balance client - price jobToPay\<rparr>;
                                    contractor' =
                                      contractor\<lparr>balance := balance contractor + price jobToPay\<rparr>;
                                    jobToPay' = jobToPay\<lparr>paid := Some True, paymentDate := Some now\<rparr>
                                in Inr (jobToPay',
                                        save_job jobToPay'
                                          (save_profile contractor' (save_profile client' s))))))))"

text \<open>The handler: the two checks before the transaction, and the \<^verbatim>\<open>try\<close>/\<^verbatim>\<open>catch\<close> around it.\<close>

definition post_jobs_pay :: "store \<Rightarrow> profile \<Rightarrow> string \<Rightarrow> int \<Rightarrow> (failure + job) \<times> store" where
  "post_jobs_pay s req_profile param_job_id now =
     (if param_job_id = [] then (Inl NotFound, s)
      else if type req_profile \<noteq> Client then (Inl Forbidden, s)
      else
        (case transaction (pay_transaction req_profile param_job_id now) s of
           (Inr updatedJob, s') \<Rightarrow> (Inr updatedJob, s')
         | (Inl error, s') \<Rightarrow> (Inl InvalidOperation, s')))"

section \<open>\<^verbatim>\<open>POST /balances/deposit/:userId\<close>\<close>

text \<open>
  The queries of the transaction body (lines 197 and 204 to 210): the contracts of which the
  requester is the client, and the jobs under them whose \<^verbatim>\<open>paid\<close> is \<^verbatim>\<open>null\<close> or \<^verbatim>\<open>false\<close>.
\<close>

definition clientContracts :: "store \<Rightarrow> int \<Rightarrow> contract list" where
  "clientContracts s requester = filter (\<lambda>c. ClientId c = requester) (contracts s)"

definition outstandingClientJobs :: "store \<Rightarrow> int \<Rightarrow> job list" where
  "outstandingClientJobs s requester =
     filter (\<lambda>j. ContractId j \<in> set (map contract_id (clientContracts s requester)) \<and>
                 (paid j = None \<or> paid j = Some False))
       (jobs s)"

text \<open>
  Line 218:
  \<^verbatim>\<open>Object.values(outstandingClientJobs).reduce((totalPrice, job) => totalPrice + job.price, 0) * 0.25\<close>.
\<close>

definition maximumDeposit :: "job list \<Rightarrow> rat" where
  "maximumDeposit outstanding = foldl (\<lambda>totalPrice job. totalPrice + price job) 0 outstanding * 0.25"

text \<open>
  The body of the transaction (lines 197 to 231).  A requester without a profile row makes
  \<^verbatim>\<open>client.balance\<close> a read on \<^verbatim>\<open>null\<close>, which throws.
\<close>

definition deposit_transaction :: "profile \<Rightarrow> rat \<Rightarrow> store \<Rightarrow> exn + (profile \<times> store)" where
  "deposit_transaction req_profile depositAmount s =
     (if clientContracts s (profile_id req_profile) = [] then Inl Error
      else if outstandingClientJobs s (profile_id req_profile) = [] then Inl Error
      else if maximumDeposit (outstandingClientJobs s (profile_id req_profile)) < depositAmount
        then Inl Error
      else
        (case findOne_profile s (profile_id req_profile) of
           None \<Rightarrow> Inl Error
         | Some client \<Rightarrow>
             (let client' = client\<lparr>balance := balance client + depositAmount\<rparr>
              in Inr (client', save_profile client' s))))"

text \<open>
  The handler.  \<open>depositAmount\<close> is the field of the JSON body: \<open>Some x\<close> for a JSON number
  \<open>x\<close>, and \<open>None\<close> for a field that is absent or \<^verbatim>\<open>null\<close>, or that \<^verbatim>\<open>isNaN\<close> rejects; line
  182 is \<^verbatim>\<open>!depositAmount || isNaN(depositAmount)\<close>, and of the numbers only 0 is falsy.
  Values that JavaScript would convert (numeric strings, booleans, arrays) are outside the
  model.
\<close>

definition post_balances_deposit ::
  "store \<Rightarrow> profile \<Rightarrow> string \<Rightarrow> rat option \<Rightarrow> (failure + profile) \<times> store" where
  "post_balances_deposit s req_profile userId depositAmount =
     (if userId = [] then (Inl NotFound, s)
      else
        (case depositAmount of
           None \<Rightarrow> (Inl BadRequest, s)
         | Some amount \<Rightarrow>
             if amount = 0 then (Inl BadRequest, s)
             else if userId \<noteq> string_of_id (profile_id req_profile) then (Inl Forbidden, s)
             else if type req_profile \<noteq> Client then (Inl Forbidden, s)
             else
               (case transaction (deposit_transaction req_profile amount) s of
                  (Inr updatedClientProfile, s') \<Rightarrow> (Inr updatedClientProfile, s')
                | (Inl error, s') \<Rightarrow> (Inl InvalidOperation, s'))))"

section \<open>\<^verbatim>\<open>GET /contracts/:id\<close>\<close>

text \<open>
  Lines 16 to 38: one query for the contract with the id of the route that has the requester
  as its client or its contractor, and 404 when there is none.
\<close>

definition get_contracts_id :: "store \<Rightarrow> profile \<Rightarrow> string \<Rightarrow> failure + contract" where
  "get_contracts_id s req_profile param_id =
     (if param_id = [] then Inl NotFound
      else
        (case find (\<lambda>c. string_of_id (contract_id c) = param_id \<and>
                         (ClientId c = profile_id req_profile \<or>
                          ContractorId c = profile_id req_profile))
                (contracts s) of
           None \<Rightarrow> Inl NotFound
         | Some contract \<Rightarrow> Inr contract))"

section \<open>The reports: common parts\<close>

text \<open>
  The \<^verbatim>\<open>where\<close> object of the job query: \<^verbatim>\<open>paid: true\<close> always, and the bounds on
  \<^verbatim>\<open>paymentDate\<close> that are set (\<^verbatim>\<open>Op.gte\<close>, \<^verbatim>\<open>Op.lte\<close>).
\<close>

record jobquery =
  paymentDate_gte :: "int option"
  paymentDate_lte :: "int option"

text \<open>
  \<^verbatim>\<open>Job.findAll({ where: jobquery })\<close>.  A comparison with a \<^verbatim>\<open>paymentDate\<close> that is \<^verbatim>\<open>null\<close>
  does not hold.
\<close>

definition findAll_jobs :: "store \<Rightarrow> jobquery \<Rightarrow> job list" where
  "findAll_jobs s q =
     filter (\<lambda>j. paid j = Some True \<and>
                 (case paymentDate_gte q of
                    None \<Rightarrow> True
                  | Some lo \<Rightarrow> (case paymentDate j of None \<Rightarrow> False | Some d \<Rightarrow> lo \<le> d)) \<and>
                 (case paymentDate_lte q of
                    None \<Rightarrow> True
                  | Some hi \<Rightarrow> (case paymentDate j of None \<Rightarrow> False | Some d \<Rightarrow> d \<le> hi)))
       (jobs s)"

text \<open>
  A query parameter is a string, or \<open>None\<close> when the request does not have it; \<^verbatim>\<open>if (start)\<close>
  holds for a string that is not empty.  \<open>parseDate\<close> stands for \<^verbatim>\<open>new Date(text)\<close>: the time
  stamp, or \<open>None\<close> for \<^verbatim>\<open>Invalid Date\<close>.  It is a parameter of the model.

  The block that reads \<^verbatim>\<open>end\<close> is the same text in both reports (lines 269 to 283 and 371 to
  385); \<open>startDate\<close> is the variable declared by \<^verbatim>\<open>let startDate;\<close> before the first block.
\<close>

definition end_block ::
  "(string \<Rightarrow> int option) \<Rightarrow> string option \<Rightarrow> int option \<Rightarrow> jobquery \<Rightarrow> failure + jobquery" where
  "end_block parseDate end_param startDate jobquery =
     (case end_param of
        None \<Rightarrow> Inr jobquery
      | Some text \<Rightarrow>
          if text = [] then Inr jobquery
          else
            (case parseDate text of
               None \<Rightarrow> Inl BadRequest
             | Some endDate \<Rightarrow>
                 (case startDate of
                    Some d \<Rightarrow> Inr \<lparr>paymentDate_gte = Some d, paymentDate_lte = Some endDate\<rparr>
                  | None \<Rightarrow> Inr \<lparr>paymentDate_gte = None, paymentDate_lte = Some endDate\<rparr>)))"

text \<open>
  An object used as a map, \<^verbatim>\<open>{}\<close> at first: the list of its entries in the order in which
  the keys were first written.  \<open>add_payment\<close> is the step of the three \<^verbatim>\<open>reduce\<close> calls,
  \<^verbatim>\<open>map[k] = map[k] ? map[k] + x : x\<close>, where \<^verbatim>\<open>undefined\<close> and 0 are falsy.  \<open>payment_of\<close>
  is the read \<^verbatim>\<open>map[k]\<close> of a key that has been written (every such read of the handlers
  is of a key written before); on other keys it is 0.  Keys that name a member of
  \<^verbatim>\<open>Object.prototype\<close>, and the place JavaScript gives to keys that are array indices in
  \<^verbatim>\<open>Object.entries\<close>, are not modelled.
\<close>

definition add_payment :: "('k \<times> rat) list \<Rightarrow> 'k \<Rightarrow> rat \<Rightarrow> ('k \<times> rat) list" where
  "add_payment m k x =
     AList.update k (case map_of m k of None \<Rightarrow> x | Some v \<Rightarrow> if v = 0 then x else v + x) m"

definition payment_of :: "('k \<times> rat) list \<Rightarrow> 'k \<Rightarrow> rat" where
  "payment_of m k = (case map_of m k of None \<Rightarrow> 0 | Some v \<Rightarrow> v)"

text \<open>Lines 292 to 301 (and 401 to 410): the total paid per contract, and the contracts paid.\<close>

definition contractJobPriceMap :: "job list \<Rightarrow> (int \<times> rat) list" where
  "contractJobPriceMap jobsPaidInTimeRange =
     foldl (\<lambda>m job. add_payment m (ContractId job) (price job)) [] jobsPaidInTimeRange"

definition relevantContracts :: "store \<Rightarrow> job list \<Rightarrow> contract list" where
  "relevantContracts s jobsPaidInTimeRange =
     filter (\<lambda>c. contract_id c \<in> set (map ContractId jobsPaidInTimeRange)) (contracts s)"

section \<open>\<^verbatim>\<open>GET /admin/best-profession\<close>\<close>

text \<open>
  Lines 259 to 267.  The \<^verbatim>\<open>const startDate\<close> of line 261 is a new variable of the block; the
  \<^verbatim>\<open>startDate\<close> of line 259, which the later block reads, is never assigned.  The result is the
  pair of that outer variable and the query.
\<close>

definition best_profession_start_block ::
  "(string \<Rightarrow> int option) \<Rightarrow> string option \<Rightarrow> failure + (int option \<times> jobquery)" where
  "best_profession_start_block parseDate start =
     (case start of
        None \<Rightarrow> Inr (None, \<lparr>paymentDate_gte = None, paymentDate_lte = None\<rparr>)
      | Some text \<Rightarrow>
          if text = [] then Inr (None, \<lparr>paymentDate_gte = None, paymentDate_lte = None\<rparr>)
          else
            (case parseDate text of
               None \<Rightarrow> Inl BadRequest
             | Some startDate_of_block \<Rightarrow>
                 Inr (None, \<lparr>paymentDate_gte = Some startDate_of_block, paymentDate_lte = None\<rparr>)))"

definition best_profession_jobquery ::
  "(string \<Rightarrow> int option) \<Rightarrow> string option \<Rightarrow> string option \<Rightarrow> failure + jobquery" where
  "best_profession_jobquery parseDate start end_param =
     (case best_profession_start_block parseDate start of
        Inl e \<Rightarrow> Inl e
      | Inr (startDate, jobquery) \<Rightarrow> end_block parseDate end_param startDate jobquery)"

text \<open>Lines 304 to 321: the totals per contractor and per profession.\<close>

definition contractorPaymentMap :: "store \<Rightarrow> job list \<Rightarrow> (int \<times> rat) list" where
  "contractorPaymentMap s jobsPaidInTimeRange =
     foldl (\<lambda>m c. add_payment m (ContractorId c)
                     (payment_of (contractJobPriceMap jobsPaidInTimeRange) (contract_id c)))
       [] (relevantContracts s jobsPaidInTimeRange)"

definition relevantContractors :: "store \<Rightarrow> job list \<Rightarrow> profile list" where
  "relevantContractors s jobsPaidInTimeRange =
     filter (\<lambda>p. profile_id p \<in> set (map ContractorId (relevantContracts s jobsPaidInTimeRange)))
       (profiles s)"

definition professionPaymentMap :: "store \<Rightarrow> job list \<Rightarrow> (string \<times> rat) list" where
  "professionPaymentMap s jobsPaidInTimeRange =
     foldl (\<lambda>m contractor. add_payment m (profession contractor)
                     (payment_of (contractorPaymentMap s jobsPaidInTimeRange) (profile_id contractor)))
       [] (relevantContractors s jobsPaidInTimeRange)"

text \<open>
  Lines 323 to 332: the loop over \<^verbatim>\<open>Object.entries(professionPaymentMap)\<close>, with the counter
  and the list as they stand before the entry.
\<close>

fun highest_loop :: "(string \<times> rat) list \<Rightarrow> rat \<Rightarrow> string list \<Rightarrow> string list" where
  "highest_loop [] professionPaymentCounter highestEarningProfessions = highestEarningProfessions"
| "highest_loop ((professionName, totalAmountPaid) # entries) professionPaymentCounter
       highestEarningProfessions =
     (if totalAmountPaid > professionPaymentCounter
        then highest_loop entries totalAmountPaid [professionName]
      else if totalAmountPaid = professionPaymentCounter
        then highest_loop entries professionPaymentCounter
               (highestEarningProfessions @ [professionName])
      else highest_loop entries professionPaymentCounter highestEarningProfessions)"

definition get_admin_best_profession ::
  "(string \<Rightarrow> int option) \<Rightarrow> store \<Rightarrow> profile \<Rightarrow> string option \<Rightarrow> string option
     \<Rightarrow> failure + string list" where
  "get_admin_best_profession parseDate s req_profile start end_param =
     (if type req_profile \<noteq> Admin then Inl Forbidden
      else
        (case best_profession_jobquery parseDate start end_param of
           Inl e \<Rightarrow> Inl e
         | Inr jobquery \<Rightarrow>
             (let jobsPaidInTimeRange = findAll_jobs s jobquery
              in if jobsPaidInTimeRange = [] then Inr []
                 else Inr (highest_loop (professionPaymentMap s jobsPaidInTimeRange) 0 []))))"



section \<open>\<^verbatim>\<open>GET /admin/best-clients\<close>\<close>

text \<open>Lines 361 to 369: here line 363 assigns the variable of line 361.\<close>

definition best_clients_start_block ::
  "(string \<Rightarrow> int option) \<Rightarrow> string option \<Rightarrow> failure + (int option \<times> jobquery)" where
  "best_clients_start_block parseDate start =
     (case start of
        None \<Rightarrow> Inr (None, \<lparr>paymentDate_gte = None, paymentDate_lte = None\<rparr>)
      | Some text \<Rightarrow>
          if text = [] then Inr (None, \<lparr>paymentDate_gte = None, paymentDate_lte = None\<rparr>)
          else
            (case parseDate text of
               None \<Rightarrow> Inl BadRequest
             | Some startDate \<Rightarrow>
                 Inr (Some startDate, \<lparr>paymentDate_gte = Some startDate, paymentDate_lte = None\<rparr>)))"

definition best_clients_jobquery ::
  "(string \<Rightarrow> int option) \<Rightarrow> string option \<Rightarrow> string option \<Rightarrow> failure + jobquery" where
  "best_clients_jobquery parseDate start end_param =
     (case best_clients_start_block parseDate start of
        Inl e \<Rightarrow> Inl e
      | Inr (startDate, jobquery) \<Rightarrow> end_block parseDate end_param startDate jobquery)"

text \<open>
  The parameter \<^verbatim>\<open>limit\<close> (\<open>clientFetchLimit\<close>) is a string or absent.  \<open>toNumber\<close> stands for
  JavaScript's conversion of a string to a number, \<open>None\<close> for \<^verbatim>\<open>NaN\<close>; it is a parameter of
  the model.  Line 388 is
  \<^verbatim>\<open>clientFetchLimit && isNaN(clientFetchLimit) || clientFetchLimit < 0\<close>, and line 390 compares
  with \<^verbatim>\<open>===\<close> to the number 0, which no string and no \<^verbatim>\<open>undefined\<close> equals.
\<close>

definition limit_rejected :: "(string \<Rightarrow> rat option) \<Rightarrow> string option \<Rightarrow> bool" where
  "limit_rejected toNumber clientFetchLimit =
     (case clientFetchLimit of
        None \<Rightarrow> False
      | Some text \<Rightarrow>
          (text \<noteq> [] \<and> toNumber text = None) \<or>
          (case toNumber text of None \<Rightarrow> False | Some n \<Rightarrow> n < 0))"

definition limit_is_number_zero :: "string option \<Rightarrow> bool" where
  "limit_is_number_zero clientFetchLimit = False"

text \<open>
  \<^verbatim>\<open>Array.from(new Set(xs))\<close>: the elements in the order of their first occurrence.
\<close>

fun first_occurrences :: "'a list \<Rightarrow> 'a list \<Rightarrow> 'a list" where
  "first_occurrences seen [] = []"
| "first_occurrences seen (x # xs) =
     (if x \<in> set seen then first_occurrences seen xs else x # first_occurrences (x # seen) xs)"

text \<open>
  \<^verbatim>\<open>xs.slice(0, clientFetchLimit)\<close>: everything when the end is \<^verbatim>\<open>undefined\<close>; otherwise the
  end is converted to a number (\<^verbatim>\<open>NaN\<close> counts as 0) and truncated towards 0, and a negative
  end counts from the end of the list.
\<close>

definition slice_from_0 :: "(string \<Rightarrow> rat option) \<Rightarrow> 'a list \<Rightarrow> string option \<Rightarrow> 'a list" where
  "slice_from_0 toNumber xs clientFetchLimit =
     (case clientFetchLimit of
        None \<Rightarrow> xs
      | Some text \<Rightarrow>
          (case toNumber text of
             None \<Rightarrow> []
           | Some n \<Rightarrow>
               (let k = (if n < 0 then - \<lfloor>- n\<rfloor> else \<lfloor>n\<rfloor>)
                in if k < 0 then take (nat (int (length xs) + k)) xs else take (nat k) xs)))"

text \<open>
  The comparison function of lines 422 and 431 orders by the total paid, larger first, and
  \<^verbatim>\<open>sort\<close> is stable: an insertion sort on the negated total.
\<close>

definition sort_by_payment_desc :: "('a \<Rightarrow> rat) \<Rightarrow> 'a list \<Rightarrow> 'a list" where
  "sort_by_payment_desc payment xs = sort_key (\<lambda>x. - payment x) xs"

text \<open>Lines 413 to 420: the total paid per client.\<close>

definition clientPaymentMap :: "store \<Rightarrow> job list \<Rightarrow> (int \<times> rat) list" where
  "clientPaymentMap s jobsPaidInTimeRange =
     foldl (\<lambda>m c. add_payment m (ClientId c)
                     (payment_of (contractJobPriceMap jobsPaidInTimeRange) (contract_id c)))
       [] (relevantContracts s jobsPaidInTimeRange)"

text \<open>An entry of the answer: \<^verbatim>\<open>{ id, fullName, paid }\<close>.\<close>

record client_entry =
  entry_id :: int
  fullName :: string
  entry_paid :: rat

text \<open>Lines 413 to 439, from the jobs selected to the answer.\<close>

definition best_clients_answer ::
  "(string \<Rightarrow> rat option) \<Rightarrow> store \<Rightarrow> job list \<Rightarrow> string option \<Rightarrow> client_entry list" where
  "best_clients_answer toNumber s jobsPaidInTimeRange clientFetchLimit =
     (let payments = clientPaymentMap s jobsPaidInTimeRange;
          clientIds = sort_by_payment_desc (payment_of payments)
                        (map ClientId (relevantContracts s jobsPaidInTimeRange));
          fetched = slice_from_0 toNumber (first_occurrences [] clientIds) clientFetchLimit;
          relevantClients = filter (\<lambda>p. profile_id p \<in> set fetched) (profiles s)
      in map (\<lambda>rc. \<lparr>entry_id = profile_id rc,
                      fullName = firstName rc @ '' '' @ lastName rc,
                      entry_paid = payment_of payments (profile_id rc)\<rparr>)
           (sort_by_payment_desc (\<lambda>rc. payment_of payments (profile_id rc)) relevantClients))"

definition get_admin_best_clients ::
  "(string \<Rightarrow> rat option) \<Rightarrow> (string \<Rightarrow> int option) \<Rightarrow> store \<Rightarrow> profile \<Rightarrow> string option
     \<Rightarrow> string option \<Rightarrow> string option \<Rightarrow> failure + client_entry list" where
  "get_admin_best_clients toNumber parseDate s req_profile start end_param clientFetchLimit =
     (if type req_profile \<noteq> Admin then Inl Forbidden
      else
        (case best_clients_jobquery parseDate start end_param of
           Inl e \<Rightarrow> Inl e
         | Inr jobquery \<Rightarrow>
             if limit_rejected toNumber clientFetchLimit then Inl BadRequest
             else if limit_is_number_zero clientFetchLimit then Inr []
             else
               (let jobsPaidInTimeRange = findAll_jobs s jobquery
                in if jobsPaidInTimeRange = [] then Inr []
                   else Inr (best_clients_answer toNumber s jobsPaidInTimeRange clientFetchLimit))))"

section \<open>Example stores\<close>

text \<open>
  The scenario of the test suite: a client with balance 1000, a contractor with balance 100,
  one contract in progress between them and one unpaid job of the given price.
\<close>

definition scenario_client :: profile where
  "scenario_client = \<lparr>profile_id = 1, firstName = ''C'', lastName = ''Client'', profession = ''none'',
     balance = 1000, type = Client\<rparr>"

definition scenario_contractor :: profile where
  "scenario_contractor = \<lparr>profile_id = 2, firstName = ''K'', lastName = ''Contractor'',
     profession = ''Programmer'', balance = 100, type = Contractor\<rparr>"

definition scenario_contract :: contract where
  "scenario_contract = \<lparr>contract_id = 1, terms = ''bla bla bla'', status = In_progress,
     ClientId = 1, ContractorId = 2\<rparr>"

definition scenario_job :: "rat \<Rightarrow> job" where
  "scenario_job p = \<lparr>job_id = 1, description = ''work'', price = p, paid = None,
     paymentDate = None, ContractId = 1\<rparr>"

definition scenario :: "rat \<Rightarrow> store" where
  "scenario p = \<lparr>profiles = [scenario_client, scenario_contractor],
     contracts = [scenario_contract], jobs = [scenario_job p]\<rparr>"

text \<open>
  The same parties with unpaid jobs of 150 and 250 (400 in all) and one job already paid.
\<close>

definition deposit_store :: store where
  "deposit_store = \<lparr>profiles = [scenario_client, scenario_contractor],
     contracts = [scenario_contract],
     jobs = [\<lparr>job_id = 1, description = ''work'', price = 150, paid = None,
               paymentDate = None, ContractId = 1\<rparr>,
             \<lparr>job_id = 2, description = ''more work'', price = 250, paid = Some False,
               paymentDate = None, ContractId = 1\<rparr>,
             \<lparr>job_id = 3, description = ''old work'', price = 5000, paid = Some True,
               paymentDate = Some 1, ContractId = 1\<rparr>]\<rparr>"

text \<open>A client who is no party of the contract.\<close>

definition scenario_stranger :: profile where
  "scenario_stranger = \<lparr>profile_id = 3, firstName = ''S'', lastName = ''Stranger'',
     profession = ''none'', balance = 1000, type = Client\<rparr>"

text \<open>
  A store for the reports: three clients, three contractors (one musician, two programmers),
  one contract per pair, and paid jobs of 200, 120 and 80 with payment dates 10, 20 and 30;
  a fourth job is unpaid.  \<open>example_parseDate\<close> and \<open>example_toNumber\<close> give the two
  conversions on the texts the examples use.
\<close>

definition report_profile :: "int \<Rightarrow> string \<Rightarrow> string \<Rightarrow> string \<Rightarrow> profile_type \<Rightarrow> profile" where
  "report_profile i given family prof t =
     \<lparr>profile_id = i, firstName = given, lastName = family, profession = prof, balance = 1000,
      type = t\<rparr>"

definition report_contract :: "int \<Rightarrow> int \<Rightarrow> int \<Rightarrow> contract" where
  "report_contract i client contractor =
     \<lparr>contract_id = i, terms = ''bla bla bla'', status = In_progress,
      ClientId = client, ContractorId = contractor\<rparr>"

definition report_job :: "int \<Rightarrow> int \<Rightarrow> rat \<Rightarrow> bool option \<Rightarrow> int option \<Rightarrow> job" where
  "report_job i c p pd d =
     \<lparr>job_id = i, description = ''work'', price = p, paid = pd, paymentDate = d, ContractId = c\<rparr>"

definition report_admin :: profile where
  "report_admin = report_profile 9 ''Ada'' ''Admin'' ''none'' Admin"

definition report_store :: store where
  "report_store =
     \<lparr>profiles = [report_profile 1 ''Harry'' ''Potter'' ''Wizard'' Client,
                  report_profile 2 ''Ash'' ''Kethcum'' ''Trainer'' Client,
                  report_profile 3 ''John'' ''Snow'' ''Knows nothing'' Client,
                  report_profile 5 ''John'' ''Lenon'' ''Musician'' Contractor,
                  report_profile 6 ''Linus'' ''Torvalds'' ''Programmer'' Contractor,
                  report_profile 7 ''Alan'' ''Turing'' ''Programmer'' Contractor,
                  report_admin],
      contracts = [report_contract 1 1 5, report_contract 2 2 6, report_contract 3 3 7],
      jobs = [report_job 1 1 200 (Some True) (Some 10),
              report_job 2 2 120 (Some True) (Some 20),
              report_job 3 3 80 (Some True) (Some 30),
              report_job 4 1 21 None None]\<rparr>"

definition example_parseDate :: "string \<Rightarrow> int option" where
  "example_parseDate text =
     (if text = ''2020-08-15'' then Some 15 else if text = ''2020-08-25'' then Some 25 else None)"

definition example_toNumber :: "string \<Rightarrow> rat option" where
  "example_toNumber text =
     (if text = ''2'' then Some 2 else if text = ''0'' then Some 0
      else if text = ''-1'' then Some (- 1) else None)"

section \<open>The decimal text of an id determines the id\<close>

lemma digit_value_digit: "d < 10 \<Longrightarrow> of_char (''0123456789'' ! d) - 48 = (d :: nat)"
proof -
  assume "d < 10"
  then consider "d = 0" | "d = 1" | "d = 2" | "d = 3" | "d = 4" | "d = 5" | "d = 6" | "d = 7"
    | "d = 8" | "d = 9"
    by atomize_elim arith
  then show ?thesis
    by cases simp_all
qed

lemma digit_not_minus: "d < 10 \<Longrightarrow> ''0123456789'' ! d \<noteq> CHR ''-''"
proof -
  assume "d < 10"
  then consider "d = 0" | "d = 1" | "d = 2" | "d = 3" | "d = 4" | "d = 5" | "d = 6" | "d = 7"
    | "d = 8" | "d = 9"
    by atomize_elim arith
  then show ?thesis
    by cases simp_all
qed

lemma read_string_of_nat:
  "foldl (\<lambda>a ch. 10 * a + (of_char ch - 48)) 0 (string_of_nat n) = n"
proof (induction n rule: string_of_nat.induct)
  case (1 n)
  show ?case
  proof (cases "n < 10")
    case True
    then show ?thesis
      by (subst string_of_nat.simps) (simp add: digit_value_digit)
  next
    case False
    with 1 have "foldl (\<lambda>a ch. 10 * a + (of_char ch - 48)) 0 (string_of_nat (n div 10)) = n div 10"
      by simp
    with False show ?thesis
      by (subst string_of_nat.simps) (simp add: digit_value_digit)
  qed
qed

lemma string_of_nat_inj: "string_of_nat m = string_of_nat n \<Longrightarrow> m = n"
  by (metis read_string_of_nat)

lemma string_of_nat_no_minus: "CHR ''-'' \<notin> set (string_of_nat n)"
proof (induction n rule: string_of_nat.induct)
  case (1 n)
  show ?case
  proof (cases "n < 10")
    case True
    then show ?thesis
      by (subst string_of_nat.simps) (use digit_not_minus in force)
  next
    case False
    with 1 have "CHR ''-'' \<notin> set (string_of_nat (n div 10))" by simp
    moreover have "''0123456789'' ! (n mod 10) \<noteq> CHR ''-''"
      by (rule digit_not_minus) simp
    ultimately show ?thesis
      using False by (subst string_of_nat.simps) auto
  qed
qed

lemma string_of_id_inj: "string_of_id i = string_of_id j \<Longrightarrow> i = j"
proof -
  assume eq: "string_of_id i = string_of_id j"
  have no: "CHR ''-'' # xs \<noteq> string_of_nat n" "string_of_nat n \<noteq> CHR ''-'' # xs" for xs n
    using string_of_nat_no_minus[of n] by (metis list.set_intros(1))+
  show "i = j"
  proof (cases "i < 0"; cases "j < 0")
    assume "i < 0" "j < 0"
    with eq have "nat (- i) = nat (- j)"
      by (simp add: string_of_id_def string_of_nat_inj)
    with \<open>i < 0\<close> \<open>j < 0\<close> show ?thesis by linarith
  next
    assume "i < 0" "\<not> j < 0"
    with eq no show ?thesis by (simp add: string_of_id_def)
  next
    assume "\<not> i < 0" "j < 0"
    with eq no show ?thesis by (simp add: string_of_id_def)
  next
    assume "\<not> i < 0" "\<not> j < 0"
    with eq have "nat i = nat j"
      by (simp add: string_of_id_def string_of_nat_inj)
    with \<open>\<not> i < 0\<close> \<open>\<not> j < 0\<close> show ?thesis by linarith
  qed
qed

section \<open>Properties of the store's primitives\<close>

lemma string_of_nat_not_Nil: "string_of_nat n \<noteq> []"
  by (subst string_of_nat.simps) simp

lemma string_of_id_not_Nil: "string_of_id i \<noteq> []"
  by (simp add: string_of_id_def string_of_nat_not_Nil)

lemma find_Some_holds: "find P xs = Some x \<Longrightarrow> P x"
  by (induction xs) (auto split: if_splits)

lemma find_map_same_key:
  assumes "\<And>x. P (f x) = P x"
  shows "find P (map f xs) = map_option f (find P xs)"
  using assms by (induction xs) auto

lemma findOne_job_param_nonempty: "findOne_job_param s param = Some j \<Longrightarrow> param \<noteq> []"
  by (auto simp: findOne_job_param_def string_of_id_not_Nil dest!: find_Some_holds)

lemma findOne_profile_id: "findOne_profile s i = Some p \<Longrightarrow> profile_id p = i"
  by (auto simp: findOne_profile_def dest: find_Some_holds)

lemma findOne_profile_save_profile:
  "findOne_profile (save_profile p s) i =
     map_option (\<lambda>r. if profile_id r = profile_id p then r\<lparr>balance := balance p\<rparr> else r)
       (findOne_profile s i)"
  unfolding findOne_profile_def save_profile_def
  by (simp add: find_map_same_key)

lemma findOne_profile_save_job [simp]: "findOne_profile (save_job j s) i = findOne_profile s i"
  by (simp add: findOne_profile_def save_job_def)

lemma findOne_job_param_save_profile [simp]:
  "findOne_job_param (save_profile p s) param = findOne_job_param s param"
  by (simp add: findOne_job_param_def save_profile_def)

lemma findOne_job_param_save_job:
  "findOne_job_param (save_job j s) param =
     map_option (\<lambda>r. if job_id r = job_id j then r\<lparr>paid := paid j, paymentDate := paymentDate j\<rparr> else r)
       (findOne_job_param s param)"
  unfolding findOne_job_param_def save_job_def
  by (simp add: find_map_same_key)

lemma balance_of_save_job [simp]: "balance_of (save_job j s) i = balance_of s i"
  by (simp add: balance_of_def)

lemma balance_of_save_profile:
  "balance_of (save_profile p s) i =
     (if i = profile_id p then map_option (\<lambda>_. balance p) (balance_of s i) else balance_of s i)"
  by (cases "findOne_profile s i")
     (auto simp: balance_of_def findOne_profile_save_profile dest: findOne_profile_id)

section \<open>Paying a job\<close>

lemma pay_transaction_InrE:
  assumes "pay_transaction req_profile param now s = Inr (j', s')"
  obtains jobToPay c contractor client where
    "findOne_job_param s param = Some jobToPay"
    "paid jobToPay \<noteq> Some True" "0 \<le> price jobToPay"
    "findOne_contract s (ContractId jobToPay) = Some c"
    "ClientId c = profile_id req_profile"
    "findOne_profile s (ContractorId c) = Some contractor"
    "findOne_profile s (profile_id req_profile) = Some client"
    "price jobToPay \<le> balance client"
    "j' = jobToPay\<lparr>paid := Some True, paymentDate := Some now\<rparr>"
    "s' = save_job j' (save_profile (contractor\<lparr>balance := balance contractor + price jobToPay\<rparr>)
            (save_profile (client\<lparr>balance := balance client - price jobToPay\<rparr>) s))"
  using assms unfolding pay_transaction_def
  by (auto split: option.splits if_splits simp: Let_def)

lemma post_jobs_pay_Inr_iff:
  "post_jobs_pay s req_profile param now = (Inr j', s') \<longleftrightarrow>
     param \<noteq> [] \<and> type req_profile = Client \<and> pay_transaction req_profile param now s = Inr (j', s')"
  unfolding post_jobs_pay_def transaction_def
  by (auto split: sum.splits prod.splits)

lemma post_jobs_pay_Inl_store:
  "post_jobs_pay s req_profile param now = (Inl e, s') \<Longrightarrow> s' = s"
  unfolding post_jobs_pay_def transaction_def
  by (auto split: sum.splits prod.splits if_splits)

lemmas scenario_defs = scenario_def scenario_client_def scenario_contractor_def
  scenario_contract_def scenario_job_def

lemma string_of_id_1: "string_of_id 1 = ''1''"
  by (simp add: string_of_id_def string_of_nat.simps)








text \<open>
  Claim C8.  The owning client pays an unpaid job of price 0: the payment succeeds, the job is
  marked paid with the payment date set, and every balance reads as before.  The hypotheses
  are the data model's: the contract's contractor and the client have their profile rows, and
  the client's balance is not negative.
\<close>

theorem payJob_zero_price:
  assumes client: "type req_profile = Client"
    and job: "findOne_job_param s param_job_id = Some jobToPay"
    and unpaid: "paid jobToPay \<noteq> Some True"
    and zero: "price jobToPay = 0"
    and contract: "findOne_contract s (ContractId jobToPay) = Some c"
    and owner: "ClientId c = profile_id req_profile"
    and contractor: "findOne_profile s (ContractorId c) = Some k"
    and payer: "findOne_profile s (profile_id req_profile) = Some cl"
    and funds: "0 \<le> balance cl"
  shows "\<exists>s'. post_jobs_pay s req_profile param_job_id now =
                 (Inr (jobToPay\<lparr>paid := Some True, paymentDate := Some now\<rparr>), s') \<and>
              findOne_job_param s' param_job_id =
                 Some (jobToPay\<lparr>paid := Some True, paymentDate := Some now\<rparr>) \<and>
              (\<forall>i. balance_of s' i = balance_of s i)"
proof -
  let ?j' = "jobToPay\<lparr>paid := Some True, paymentDate := Some now\<rparr>"
  let ?s' = "save_job ?j' (save_profile k (save_profile cl s))"
  have tx: "pay_transaction req_profile param_job_id now s = Inr (?j', ?s')"
    using assms by (simp add: pay_transaction_def Let_def)
  have run: "post_jobs_pay s req_profile param_job_id now = (Inr ?j', ?s')"
    using client findOne_job_param_nonempty[OF job]
    by (simp add: post_jobs_pay_def transaction_def tx)
  have "job_id jobToPay = job_id ?j'" by simp
  then have fj: "findOne_job_param ?s' param_job_id = Some ?j'"
    using job by (simp add: findOne_job_param_save_job)
  have same: "balance_of (save_profile p t) i = balance_of t i"
    if "findOne_profile t (profile_id p) = Some p" for p t i
    using that by (simp add: balance_of_save_profile) (simp add: balance_of_def)
  have idk: "profile_id k = ContractorId c" and idcl: "profile_id cl = profile_id req_profile"
    using contractor payer by (auto dest: findOne_profile_id)
  have kept: "findOne_profile (save_profile cl s) (profile_id k) = Some k"
  proof (cases "profile_id k = profile_id cl")
    case True
    with contractor payer have "k = cl" by (simp add: idk idcl)
    with payer show ?thesis by (simp add: findOne_profile_save_profile idcl)
  next
    case False
    with contractor show ?thesis by (simp add: findOne_profile_save_profile idk)
  qed
  have "balance_of ?s' i = balance_of s i" for i
    using same[OF kept] same[of s cl] payer by (simp add: idcl)
  with run fj show ?thesis by blast
qed


lemmas store_eval = findOne_job_param_def findOne_contract_def findOne_profile_def
  save_job_def save_profile_def balance_of_def string_of_id_def string_of_nat.simps




theorem payJob_zero_price_witness:
  "\<exists>s'. post_jobs_pay (scenario 0) scenario_client ''1'' 3 =
           (Inr (scenario_job 0\<lparr>paid := Some True, paymentDate := Some 3\<rparr>), s') \<and>
        balance_of s' 1 = Some 1000 \<and> balance_of s' 2 = Some 100"
proof -
  have pre: "type scenario_client = Client"
    "findOne_job_param (scenario 0) ''1'' = Some (scenario_job 0)"
    "paid (scenario_job 0) \<noteq> Some True"
    "price (scenario_job 0) = 0"
    "findOne_contract (scenario 0) (ContractId (scenario_job 0)) = Some scenario_contract"
    "ClientId scenario_contract = profile_id scenario_client"
    "findOne_profile (scenario 0) (ContractorId scenario_contract) = Some scenario_contractor"
    "findOne_profile (scenario 0) (profile_id scenario_client) = Some scenario_client"
    "0 \<le> balance scenario_client"
    by (simp_all add: store_eval scenario_defs)
  have "balance_of (scenario 0) 1 = Some 1000" "balance_of (scenario 0) 2 = Some 100"
    by (simp_all add: store_eval scenario_defs)
  with payJob_zero_price[OF pre, where now = 3] show ?thesis
    by auto
qed


section \<open>Depositing\<close>







lemmas deposit_eval = post_balances_deposit_def transaction_def deposit_transaction_def
  clientContracts_def outstandingClientJobs_def maximumDeposit_def Let_def


text \<open>
  Claim C5 asks that an amount that is not positive is refused as a bad request before the
  store is read.  Line 182 refuses 0 and what is not a number, and lets a negative number
  pass: with unpaid jobs of 400 in all, a deposit of -50 is carried out and lowers the balance
  from 1000 to 950.
\<close>

theorem deposit_negative_amount:
  "\<exists>s'. post_balances_deposit deposit_store scenario_client ''1'' (Some (- 50)) =
           (Inr (scenario_client\<lparr>balance := 950\<rparr>), s') \<and>
        balance_of s' 1 = Some 950"
  by (simp add: store_eval deposit_eval deposit_store_def scenario_defs)

lemma deposit_zero_or_missing:
  "userId \<noteq> [] \<Longrightarrow> post_balances_deposit s req_profile userId None = (Inl BadRequest, s)"
  "userId \<noteq> [] \<Longrightarrow> post_balances_deposit s req_profile userId (Some 0) = (Inl BadRequest, s)"
  by (simp_all add: post_balances_deposit_def)

section \<open>Fetching a contract\<close>

lemma find_unique_key:
  assumes "distinct (map key xs)" "x \<in> set xs"
  shows "find (\<lambda>y. key y = key x \<and> Q y) xs = (if Q x then Some x else None)"
  using assms
proof (induction xs)
  case Nil
  then show ?case by simp
next
  case (Cons a xs)
  show ?case
  proof (cases "a = x")
    case True
    with Cons.prems have "\<forall>y\<in>set xs. key y \<noteq> key x" by (auto simp: image_iff)
    then have "find (\<lambda>y. key y = key x \<and> Q y) xs = None"
      by (auto simp: find_None_iff)
    with True show ?thesis by simp
  next
    case False
    with Cons.prems have "x \<in> set xs" "key a \<noteq> key x" "distinct (map key xs)"
      by (auto simp: image_iff)
    with Cons.IH show ?thesis by simp
  qed
qed

lemma get_contracts_id_present:
  assumes "distinct (map contract_id (contracts s))" "c \<in> set (contracts s)"
  shows "get_contracts_id s req_profile (string_of_id (contract_id c)) =
           (if ClientId c = profile_id req_profile \<or> ContractorId c = profile_id req_profile
            then Inr c else Inl NotFound)"
proof -
  have same: "(\<lambda>x. string_of_id (contract_id x) = string_of_id (contract_id c) \<and>
                    (ClientId x = profile_id req_profile \<or> ContractorId x = profile_id req_profile))
            = (\<lambda>x. contract_id x = contract_id c \<and>
                    (ClientId x = profile_id req_profile \<or> ContractorId x = profile_id req_profile))"
    by (auto dest: string_of_id_inj)
  show ?thesis
    unfolding get_contracts_id_def same
    using find_unique_key[OF assms, where Q = "\<lambda>x. ClientId x = profile_id req_profile \<or> ContractorId x = profile_id req_profile"]
    by (simp add: string_of_id_not_Nil)
qed

lemma get_contracts_id_absent:
  assumes "\<forall>c\<in>set (contracts s). contract_id c \<noteq> i"
  shows "get_contracts_id s req_profile (string_of_id i) = Inl NotFound"
proof -
  have "find (\<lambda>c. string_of_id (contract_id c) = string_of_id i \<and>
                  (ClientId c = profile_id req_profile \<or> ContractorId c = profile_id req_profile))
          (contracts s) = None"
    using assms by (auto simp: find_None_iff dest: string_of_id_inj)
  then show ?thesis by (simp add: get_contracts_id_def)
qed

text \<open>
  Claim C7.  In a store whose contract ids are unique, the request for a contract of the store
  is answered with that contract exactly when the requester is its client or its contractor.
  For any other requester the answer is \<open>NotFound\<close>, which is also the answer for an id that
  no contract has: the two cases cannot be told apart.
\<close>

theorem getContractById_parties_only:
  assumes ids: "distinct (map contract_id (contracts s))"
  shows "(c \<in> set (contracts s) \<longrightarrow>
            get_contracts_id s req_profile (string_of_id (contract_id c)) =
              (if profile_id req_profile = ClientId c \<or> profile_id req_profile = ContractorId c
               then Inr c else Inl NotFound)) \<and>
         ((\<forall>c'\<in>set (contracts s). contract_id c' \<noteq> i) \<longrightarrow>
            get_contracts_id s req_profile (string_of_id i) = Inl NotFound)"
  using get_contracts_id_present[OF ids, of c req_profile] get_contracts_id_absent[of s i req_profile]
  by (auto simp: eq_commute)


theorem getContractById_parties_only_witness:
  "get_contracts_id (scenario 500) scenario_client ''1'' = Inr scenario_contract \<and>
   get_contracts_id (scenario 500) scenario_contractor ''1'' = Inr scenario_contract \<and>
   get_contracts_id (scenario 500) scenario_stranger ''1'' = Inl NotFound \<and>
   get_contracts_id (scenario 500) scenario_stranger ''99'' = Inl NotFound"
proof -
  have ids: "distinct (map contract_id (contracts (scenario 500)))"
    and mem: "scenario_contract \<in> set (contracts (scenario 500))"
    and other: "\<forall>c'\<in>set (contracts (scenario 500)). contract_id c' \<noteq> 99"
    by (simp_all add: scenario_defs)
  have texts: "string_of_id (contract_id scenario_contract) = ''1''" "string_of_id 99 = ''99''"
    by (simp_all add: scenario_defs string_of_id_def string_of_nat.simps)
  from getContractById_parties_only[OF ids, of scenario_contract scenario_client 99]
    getContractById_parties_only[OF ids, of scenario_contract scenario_contractor 99]
    getContractById_parties_only[OF ids, of scenario_contract scenario_stranger 99]
    mem other
  show ?thesis
    unfolding texts by (simp add: scenario_defs scenario_stranger_def)
qed

section \<open>Best profession\<close>






lemma keys_add_payment: "fst ` set (add_payment m k x) = insert k (fst ` set m)"
  by (simp add: add_payment_def dom_update)



lemma group_keys:
  "fst ` set (foldl (\<lambda>m y. add_payment m (key y) (val y)) m0 xs) = fst ` set m0 \<union> key ` set xs"
  by (induction xs arbitrary: m0) (auto simp: keys_add_payment)



lemma payment_of_empty [simp]: "payment_of [] k = 0"
  by (simp add: payment_of_def)








lemma sum_list_if_const:
  "(\<Sum>x\<leftarrow>xs. if P then f x else (0::rat)) = (if P then (\<Sum>x\<leftarrow>xs. f x) else 0)"
  by simp





lemma find_mem: "find P xs = Some x \<Longrightarrow> x \<in> set xs"
  by (induction xs) (auto split: if_splits)










lemmas report_defs = report_store_def report_admin_def report_profile_def report_contract_def
  report_job_def example_parseDate_def

lemmas report_eval = get_admin_best_profession_def best_profession_jobquery_def
  best_profession_start_block_def end_block_def findAll_jobs_def professionPaymentMap_def
  relevantContractors_def contractorPaymentMap_def relevantContracts_def contractJobPriceMap_def
  add_payment_def payment_of_def Let_def

lemma best_profession_lower_bound_dropped:
  assumes "a \<noteq> []" "b \<noteq> []" "parseDate a = Some x" "parseDate b = Some y"
  shows "best_profession_jobquery parseDate (Some a) (Some b) =
           Inr \<lparr>paymentDate_gte = None, paymentDate_lte = Some y\<rparr>"
  using assms
  by (simp add: best_profession_jobquery_def best_profession_start_block_def end_block_def)

lemma best_clients_both_bounds:
  assumes "a \<noteq> []" "b \<noteq> []" "parseDate a = Some x" "parseDate b = Some y"
  shows "best_clients_jobquery parseDate (Some a) (Some b) =
           Inr \<lparr>paymentDate_gte = Some x, paymentDate_lte = Some y\<rparr>"
  using assms
  by (simp add: best_clients_jobquery_def best_clients_start_block_def end_block_def)

text \<open>
  Claim C4 asks that both bounds constrain the selection when both are given.  In this handler
  the lower bound is lost whenever the upper bound is given: for the range from the 15th to
  the 25th the query keeps only \<open>paymentDate \<le> 25\<close>, the jobs paid on the 10th and the 20th
  are both selected, and the answer is the musician, who was paid on the 10th.
\<close>

theorem bestProfession_start_bound_dropped:
  "best_profession_jobquery example_parseDate (Some ''2020-08-15'') (Some ''2020-08-25'') =
     Inr \<lparr>paymentDate_gte = None, paymentDate_lte = Some 25\<rparr> \<and>
   map paymentDate (findAll_jobs report_store \<lparr>paymentDate_gte = None, paymentDate_lte = Some 25\<rparr>) =
     [Some 10, Some 20] \<and>
   get_admin_best_profession example_parseDate report_store report_admin
     (Some ''2020-08-15'') (Some ''2020-08-25'') = Inr [''Musician'']"
  by (simp add: report_eval report_defs)


text \<open>
  Every read \<^verbatim>\<open>map[key]\<close> of the three \<^verbatim>\<open>reduce\<close> calls is of a key that the map holds, so
  that the value \<open>payment_of\<close> gives to other keys is never used.
\<close>

lemma contractJobPriceMap_keys: "fst ` set (contractJobPriceMap js) = ContractId ` set js"
  by (simp add: contractJobPriceMap_def group_keys)

lemma contractorPaymentMap_keys:
  "fst ` set (contractorPaymentMap s js) = ContractorId ` set (relevantContracts s js)"
  by (simp add: contractorPaymentMap_def group_keys)

lemma clientPaymentMap_keys:
  "fst ` set (clientPaymentMap s js) = ClientId ` set (relevantContracts s js)"
  by (simp add: clientPaymentMap_def group_keys)

lemma relevantContracts_read_defined:
  "c \<in> set (relevantContracts s js) \<Longrightarrow> contract_id c \<in> fst ` set (contractJobPriceMap js)"
  by (simp add: contractJobPriceMap_keys relevantContracts_def)

lemma relevantContractors_read_defined:
  "k \<in> set (relevantContractors s js) \<Longrightarrow> profile_id k \<in> fst ` set (contractorPaymentMap s js)"
  by (simp add: contractorPaymentMap_keys relevantContractors_def)

section \<open>Best clients\<close>

text \<open>
  What holds of every answer: its entries are profiles of the store with the full name put
  together from first and last name and the total read from a key the map holds; the entries
  are sorted by that total, larger first; a limit that is not a number or is negative is
  refused; a limit that converts to 0 gives the empty list; and without a limit there is an
  entry for every profile that is the client of a contract paid in the range.
\<close>

lemma set_first_occurrences: "set (first_occurrences seen xs) = set xs - set seen"
  by (induction seen xs rule: first_occurrences.induct) auto

lemma distinct_first_occurrences: "distinct (first_occurrences seen xs)"
  by (induction seen xs rule: first_occurrences.induct) (auto simp: set_first_occurrences)

lemma set_slice_from_0: "set (slice_from_0 toNumber xs limit) \<subseteq> set xs"
  by (auto simp: slice_from_0_def Let_def split: option.splits dest: in_set_takeD)

lemma best_clients_answer_entries:
  assumes "e \<in> set (best_clients_answer toNumber s js limit)"
  shows "\<exists>rc\<in>set (profiles s).
           entry_id e = profile_id rc \<and>
           fullName e = firstName rc @ '' '' @ lastName rc \<and>
           entry_paid e = payment_of (clientPaymentMap s js) (profile_id rc) \<and>
           profile_id rc \<in> fst ` set (clientPaymentMap s js)"
proof -
  from assms obtain rc where rc: "rc \<in> set (profiles s)"
    and f: "profile_id rc \<in> set (slice_from_0 toNumber
              (first_occurrences [] (sort_by_payment_desc (payment_of (clientPaymentMap s js))
                 (map ClientId (relevantContracts s js)))) limit)"
    and e: "e = \<lparr>entry_id = profile_id rc, fullName = firstName rc @ '' '' @ lastName rc,
                  entry_paid = payment_of (clientPaymentMap s js) (profile_id rc)\<rparr>"
    by (auto simp: best_clients_answer_def Let_def sort_by_payment_desc_def)
  from f have "profile_id rc \<in> ClientId ` set (relevantContracts s js)"
    using set_slice_from_0 by (fastforce simp: set_first_occurrences sort_by_payment_desc_def)
  with rc e show ?thesis
    by (auto simp: clientPaymentMap_keys)
qed

lemma best_clients_answer_sorted:
  "sorted (map (\<lambda>e. - entry_paid e) (best_clients_answer toNumber s js limit))"
proof -
  have "map (\<lambda>e. - entry_paid e) (best_clients_answer toNumber s js limit) =
          map (\<lambda>rc. - payment_of (clientPaymentMap s js) (profile_id rc))
            (sort_key (\<lambda>rc. - payment_of (clientPaymentMap s js) (profile_id rc))
               (filter (\<lambda>p. profile_id p \<in> set (slice_from_0 toNumber
                  (first_occurrences [] (sort_by_payment_desc (payment_of (clientPaymentMap s js))
                     (map ClientId (relevantContracts s js)))) limit)) (profiles s)))"
    by (simp add: best_clients_answer_def Let_def sort_by_payment_desc_def comp_def)
  then show ?thesis by simp
qed

lemma best_clients_answer_no_limit:
  "length (best_clients_answer toNumber s js None) =
     length (filter (\<lambda>p. profile_id p \<in> ClientId ` set (relevantContracts s js)) (profiles s))"
  by (simp add: best_clients_answer_def Let_def sort_by_payment_desc_def slice_from_0_def
      set_first_occurrences)

lemma best_clients_limit_refused:
  assumes "type req_profile = Admin"
    and "best_clients_jobquery parseDate start end_param = Inr jobquery"
    and "(text \<noteq> [] \<and> toNumber text = None) \<or> (\<exists>n. toNumber text = Some n \<and> n < 0)"
  shows "get_admin_best_clients toNumber parseDate s req_profile start end_param (Some text) =
           Inl BadRequest"
  using assms by (auto simp: get_admin_best_clients_def limit_rejected_def)

lemma best_clients_limit_zero:
  assumes "type req_profile = Admin"
    and "best_clients_jobquery parseDate start end_param = Inr jobquery"
    and "toNumber text = Some 0"
  shows "get_admin_best_clients toNumber parseDate s req_profile start end_param (Some text) = Inr []"
  using assms
  by (simp add: get_admin_best_clients_def limit_rejected_def limit_is_number_zero_def Let_def
      best_clients_answer_def slice_from_0_def sort_by_payment_desc_def)

lemmas clients_eval = get_admin_best_clients_def best_clients_jobquery_def
  best_clients_start_block_def end_block_def limit_rejected_def limit_is_number_zero_def
  findAll_jobs_def best_clients_answer_def clientPaymentMap_def relevantContracts_def
  contractJobPriceMap_def add_payment_def payment_of_def sort_by_payment_desc_def
  slice_from_0_def Let_def

text \<open>
  Claim C6 asks that at most 2 clients are returned when no limit is given.  The handler has no
  default: without the parameter the end of \<^verbatim>\<open>slice\<close> is \<^verbatim>\<open>undefined\<close>, and all three paying
  clients of the example are returned.
\<close>

theorem bestClients_no_default_limit:
  "get_admin_best_clients example_toNumber example_parseDate report_store report_admin None None None =
     Inr [\<lparr>entry_id = 1, fullName = ''Harry Potter'', entry_paid = 200\<rparr>,
          \<lparr>entry_id = 2, fullName = ''Ash Kethcum'', entry_paid = 120\<rparr>,
          \<lparr>entry_id = 3, fullName = ''John Snow'', entry_paid = 80\<rparr>]"
  by (simp add: clients_eval report_defs)

lemma bestClients_limit_2:
  "get_admin_best_clients example_toNumber example_parseDate report_store report_admin None None (Some ''2'') =
     Inr [\<lparr>entry_id = 1, fullName = ''Harry Potter'', entry_paid = 200\<rparr>,
          \<lparr>entry_id = 2, fullName = ''Ash Kethcum'', entry_paid = 120\<rparr>]"
  by (simp add: clients_eval report_defs example_toNumber_def)

lemma bestClients_limit_0:
  "get_admin_best_clients example_toNumber example_parseDate report_store report_admin None None (Some ''0'') =
     Inr []"
  by (simp add: clients_eval report_defs example_toNumber_def)

lemma bestClients_limit_bad:
  "get_admin_best_clients example_toNumber example_parseDate report_store report_admin None None (Some ''-1'') =
     Inl BadRequest"
  "get_admin_best_clients example_toNumber example_parseDate report_store report_admin None None (Some ''two'') =
     Inl BadRequest"
  by (simp_all add: clients_eval report_defs example_toNumber_def)

section \<open>Paid jobs keep prices that are not negative\<close>

text \<open>
  The hypothesis on prices of the best-profession theorem holds in every store (with unique
  job ids) that the service reaches from one in which it holds: a payment marks a job paid
  only when its price is not negative, and a deposit does not touch the jobs.
\<close>

lemma save_job_jobs:
  "jobs (save_job j s) =
     map (\<lambda>r. if job_id r = job_id j then r\<lparr>paid := paid j, paymentDate := paymentDate j\<rparr> else r) (jobs s)"
  by (simp add: save_job_def)

lemma pay_keeps_paid_prices:
  assumes inv: "\<forall>j\<in>set (jobs s). paid j = Some True \<longrightarrow> 0 \<le> price j"
    and ids: "distinct (map job_id (jobs s))"
    and run: "post_jobs_pay s req_profile param now = (r, s')"
  shows "\<forall>j\<in>set (jobs s'). paid j = Some True \<longrightarrow> 0 \<le> price j"
proof (cases r)
  case (Inl e)
  with run have "s' = s" by (simp add: post_jobs_pay_Inl_store)
  with inv show ?thesis by simp
next
  case (Inr updatedJob)
  with run have tx: "pay_transaction req_profile param now s = Inr (updatedJob, s')"
    by (simp add: post_jobs_pay_Inr_iff)
  from tx obtain jobToPay c contractor client where
    j: "findOne_job_param s param = Some jobToPay"
    and ok: "0 \<le> price jobToPay"
    and j': "updatedJob = jobToPay\<lparr>paid := Some True, paymentDate := Some now\<rparr>"
    and s': "s' = save_job updatedJob
               (save_profile (contractor\<lparr>balance := balance contractor + price jobToPay\<rparr>)
                 (save_profile (client\<lparr>balance := balance client - price jobToPay\<rparr>) s))"
    by (rule pay_transaction_InrE)
  from j have mem: "jobToPay \<in> set (jobs s)"
    by (auto simp: findOne_job_param_def dest: find_mem)
  have rows: "jobs s' = map (\<lambda>r. if job_id r = job_id jobToPay
                                  then r\<lparr>paid := Some True, paymentDate := Some now\<rparr> else r) (jobs s)"
    by (simp add: s' save_job_jobs save_profile_def j')
  show ?thesis
  proof
    fix x assume "x \<in> set (jobs s')"
    then obtain r where r: "r \<in> set (jobs s)"
      and x: "x = (if job_id r = job_id jobToPay then r\<lparr>paid := Some True, paymentDate := Some now\<rparr> else r)"
      by (auto simp: rows)
    show "paid x = Some True \<longrightarrow> 0 \<le> price x"
    proof (cases "job_id r = job_id jobToPay")
      case True
      with ids r mem have "r = jobToPay"
        by (meson distinct_map inj_onD)
      with x True ok show ?thesis by simp
    next
      case False
      with x r inv show ?thesis by simp
    qed
  qed
qed

lemma deposit_keeps_jobs:
  "post_balances_deposit s req_profile userId amount = (r, s') \<Longrightarrow> jobs s' = jobs s"
  by (auto simp: post_balances_deposit_def transaction_def deposit_transaction_def Let_def
      save_profile_def split: option.splits if_splits sum.splits prod.splits)

end
